theory Spec2Isabelle
  imports Main "HOL-Library.Word"
begin

unbundle bit_operations_syntax

section \<open>JavaScript values, errors and outcomes\<close>

text \<open>
  The values that travel through \<^verbatim>\<open>routes/snaps.js\<close>. Numbers are integral (identifiers,
  codes, millisecond timestamps, seconds); an object literal is the list of its fields in
  the order the source writes them.
\<close>

datatype jsval =
    JUndefined
  | JNull
  | JBool bool
  | JNum int
  | JStr string
  | JArr "jsval list"
  | JObj "(string \<times> jsval) list"

text \<open>ToBoolean, as \<^verbatim>\<open>if (result)\<close> applies it.\<close>

fun truthy :: "jsval \<Rightarrow> bool" where
  "truthy JUndefined = False"
| "truthy JNull = False"
| "truthy (JBool b) = b"
| "truthy (JNum n) = (n \<noteq> 0)"
| "truthy (JStr s) = (s \<noteq> [])"
| "truthy (JArr xs) = True"
| "truthy (JObj fs) = True"

text \<open>Reading a field of an object value.\<close>

fun obj_get :: "jsval \<Rightarrow> string \<Rightarrow> jsval option" where
  "obj_get (JObj fs) k = map_of fs k"
| "obj_get _ k = None"

text \<open>
  \<^verbatim>\<open>a | b\<close>: both operands go through ToInt32, the 32-bit words are or-ed, and the
  result is read as a signed 32-bit integer.
\<close>

definition js_bitor :: "int \<Rightarrow> int \<Rightarrow> int" where
  "js_bitor a b = sint ((word_of_int a :: 32 word) OR word_of_int b)"

text \<open>
  Every error the source creates itself is a plain \<^verbatim>\<open>new Error(message)\<close>; the
  constructor says which kind of the specification's taxonomy the throw site belongs to
  and carries the message of the source. \<open>TypeError\<close> is the engine's error for reading
  a property of \<^verbatim>\<open>undefined\<close>. \<open>Foreign\<close> is an error object handed over by a
  collaborator (the transport, the blob decoder).
\<close>

datatype error =
    InvalidArgument string
  | ParseError string
  | TypeError string
  | Foreign string

text \<open>
  How a call ends for its caller: an exception thrown before the call returns, or a
  result on the asynchronous channel (the node callback, the promise): an error or a value.
\<close>

datatype 'a outcome = Thrown error | Rejected error | Resolved 'a

text \<open>The node callback convention \<^verbatim>\<open>cb(err, result)\<close>.\<close>

type_synonym 'a reply = "error option \<times> 'a"

fun deliver :: "'a reply \<Rightarrow> 'a outcome" where
  "deliver (Some e, r) = Rejected e"
| "deliver (None, r) = Resolved r"

section \<open>Requests\<close>

text \<open>The members of \<^verbatim>\<open>constants.endpoints\<close> the file names.\<close>

datatype endpoint =
    snaps_send
  | snaps_upload
  | snaps_loadBlob
  | update_snaps
  | misc_locationData

text \<open>
  A form field holds a value, the text \<^verbatim>\<open>JSON.stringify\<close> makes of a value or of an
  object with computed keys, or the bytes of a buffer.
\<close>

datatype fieldval =
    Val jsval
  | Json jsval
  | JsonMap "string \<rightharpoonup> jsval"
  | Bytes "8 word list"

type_synonym form = "(string \<times> fieldval) list"

text \<open>
  The three ways out of the module: \<^verbatim>\<open>self.client.post\<close>, \<^verbatim>\<open>Request.postCustom\<close>
  (endpoint, form, headers, token) and \<^verbatim>\<open>self.client.sendEvents\<close> (events, record map).
\<close>

datatype call =
    Post endpoint form
  | PostCustom endpoint form "string \<rightharpoonup> string" string
  | SendEvents "jsval list" "string \<rightharpoonup> jsval"

section \<open>Model objects\<close>

record snap =
  "identifier" :: string

record skblob =
  isImage :: bool
  data :: "8 word list"

text \<open>The argument of \<^verbatim>\<open>_uploadSnap\<close>: an instance of SKBlob, or any other value.\<close>

datatype blob_arg = SKBlob skblob | NotSKBlob jsval

record snap_options =
  recipients :: "string list"
  caption :: string
  timer :: int
  cameraFrontFacing :: bool
  isReply :: bool

record location =
  lat :: jsval
  lng :: jsval

record session_obj =
  countryCode :: string
  addedFriendsTimestamp :: int

record screen_size =
  width :: int
  height :: int

record client_obj =
  username :: string
  session :: session_obj
  screenSize :: screen_size
  googleAuthToken :: string
  authToken :: string

text \<open>
  The facade object. A JavaScript object answers the read of a property it does not have
  with \<^verbatim>\<open>undefined\<close>, so the object's own \<^verbatim>\<open>session\<close> property is an option: \<open>None\<close>
  when nothing has assigned it.
\<close>

record snaps_obj =
  client :: client_obj
  own_session :: "session_obj option"

text \<open>
  The constructor (lines 20 to 26) stores the client and nothing else; \<^verbatim>\<open>opts\<close> is
  defaulted and never read.
\<close>

definition Snaps :: "client_obj \<Rightarrow> jsval \<Rightarrow> snaps_obj" where
  "Snaps cl opts = \<lparr> client = cl, own_session = None \<rparr>"

section \<open>Collaborators\<close>

text \<open>
  What the file requires from modules that are not part of it, taken as parameters: the
  helpers of \<^verbatim>\<open>lib/string-utils\<close>, the entries of \<^verbatim>\<open>lib/constants\<close> that are not
  endpoints, and the constructors of the models. A date is its number of milliseconds;
  the wire-format timestamp is a number. \<open>SnapOptions_new\<close> is \<^verbatim>\<open>new SnapOptions(...)\<close>:
  it returns the options or the exception it throws.
\<close>

record deps =
  mediaIdentifier :: "string \<Rightarrow> string"
  timestampFrom :: "int \<Rightarrow> int"
  SnapStatus_Screenshot :: int
  MediaKind_Image :: int
  MediaKind_Video :: int
  headers_clientAuthToken :: string
  headers_contentType :: string
  core_boundary :: string
  SKLocation_new :: "jsval \<Rightarrow> jsval"
  SKBlob_initWithData :: "jsval \<Rightarrow> skblob reply"
  SnapOptions_new :: "string list \<Rightarrow> string \<Rightarrow> int \<Rightarrow> error + snap_options"

text \<open>
  What the network answers: for each request, the arguments its callback is called with.
\<close>

record transport =
  post :: "endpoint \<Rightarrow> form \<Rightarrow> jsval reply"
  postCustom :: "endpoint \<Rightarrow> form \<Rightarrow> (string \<rightharpoonup> string) \<Rightarrow> string \<Rightarrow> error option"
  sendEvents :: "jsval list \<Rightarrow> (string \<rightharpoonup> jsval) \<Rightarrow> jsval reply"

text \<open>The error the network reported for a request, if any.\<close>

fun call_err :: "transport \<Rightarrow> call \<Rightarrow> error option" where
  "call_err T (Post ep f) = fst (post T ep f)"
| "call_err T (PostCustom ep f h a) = postCustom T ep f h a"
| "call_err T (SendEvents evs info) = fst (sendEvents T evs info)"

section \<open>The operations\<close>

text \<open>Every operation returns how it ended and the requests it issued, in order.\<close>

type_synonym 'a run = "'a outcome \<times> call list"

definition uploadSnap_message :: string where
  "uploadSnap_message =
     ''Snap._uploadSnap invalid argument '' @ [CHR 0x22] @ ''blob'' @ [CHR 0x22] @
     '' must be SKBlob instance''"

text \<open>\<^verbatim>\<open>_uploadSnap\<close> (lines 230 to 257).\<close>

definition uploadSnap :: "deps \<Rightarrow> transport \<Rightarrow> snaps_obj \<Rightarrow> blob_arg \<Rightarrow> string run" where
  "uploadSnap D T self blob =
     (let uuid = mediaIdentifier D (username (client self)) in
      case blob of
        NotSKBlob v \<Rightarrow> (Thrown (InvalidArgument uploadSnap_message), [])
      | SKBlob b \<Rightarrow>
          (let params =
                 [(''media_id'', Val (JStr uuid)),
                  (''type'', Val (JNum (if isImage b then MediaKind_Image D else MediaKind_Video D))),
                  (''data'', Bytes (data b)),
                  (''zipped'', Val (JNum 0)),
                  (''features_map'', Val (JStr ''{}'')),
                  (''username'', Val (JStr (username (client self))))];
               headers =
                 (Map.empty
                   (headers_clientAuthToken D \<mapsto> ''Bearer '' @ googleAuthToken (client self)))
                   (headers_contentType D \<mapsto> ''multipart/form-data; boundary='' @ core_boundary D);
               req = PostCustom snaps_upload params headers (authToken (client self))
           in case postCustom T snaps_upload params headers (authToken (client self)) of
                Some err \<Rightarrow> (Rejected err, [req])
              | None \<Rightarrow> (Resolved uuid, [req])))"

text \<open>
  \<^verbatim>\<open>sendSnapCustom\<close> (lines 51 to 80). The body runs inside a promise executor: an
  exception \<^verbatim>\<open>_uploadSnap\<close> throws there rejects the promise with that exception.
\<close>

definition sendSnapCustom ::
  "deps \<Rightarrow> transport \<Rightarrow> snaps_obj \<Rightarrow> blob_arg \<Rightarrow> snap_options \<Rightarrow> jsval run" where
  "sendSnapCustom D T self blob opts =
     (case uploadSnap D T self blob of
        (Thrown e, reqs) \<Rightarrow> (Rejected e, reqs)
      | (Rejected err, reqs) \<Rightarrow> (Rejected err, reqs)
      | (Resolved mediaID, reqs) \<Rightarrow>
          (let params =
                 [(''camera_front_facing'', Val (JBool (cameraFrontFacing opts))),
                  (''country_code'', Val (JStr (countryCode (session (client self))))),
                  (''media_id'', Val (JStr mediaID)),
                  (''recipients'', Json (JArr (map JStr (recipients opts)))),
                  (''recipient_ids'', Json (JArr (map JStr (recipients opts)))),
                  (''reply'', Val (JBool (isReply opts))),
                  (''time'', Val (JNum (timer opts))),
                  (''zipped'', Val (JNum 0)),
                  (''username'', Val (JStr (username (client self))))]
           in case post T snaps_send params of
                (Some err, result) \<Rightarrow> (Rejected err, reqs @ [Post snaps_send params])
              | (None, result) \<Rightarrow> (Resolved result, reqs @ [Post snaps_send params])))"

text \<open>\<^verbatim>\<open>Array.prototype.forEach\<close> with a callback of element and index, over a state.\<close>

fun forEach_index :: "('a \<Rightarrow> nat \<Rightarrow> 's \<Rightarrow> 's) \<Rightarrow> 'a list \<Rightarrow> nat \<Rightarrow> 's \<Rightarrow> 's" where
  "forEach_index f [] i s = s"
| "forEach_index f (x # xs) i s = forEach_index f xs (Suc i) (f x i s)"

definition markSnapsViewed_message :: string where
  "markSnapsViewed_message = ''Snaps.markSnapsViewed all arrays must have the same length''"

definition session_message :: string where
  "session_message = ''Cannot read property addedFriendsTimestamp of undefined''"

text \<open>
  \<^verbatim>\<open>markSnapsViewed\<close> (lines 103 to 125). The form is an object literal whose fields are
  evaluated before \<^verbatim>\<open>post\<close> is called; its first field reads \<^verbatim>\<open>self.session\<close>, the
  facade's own property, and a property of that.
\<close>

definition markSnapsViewed ::
  "deps \<Rightarrow> transport \<Rightarrow> snaps_obj \<Rightarrow> snap list \<Rightarrow> int list \<Rightarrow> jsval list \<Rightarrow> jsval run" where
  "markSnapsViewed D T self snaps tms secondsViewed =
     (if length snaps \<noteq> length tms \<or> length tms \<noteq> length secondsViewed
      then (Thrown (InvalidArgument markSnapsViewed_message), [])
      else
        (let json =
               forEach_index
                 (\<lambda>sn index j.
                    j(identifier sn \<mapsto>
                        JObj [(''t'', JNum (timestampFrom D (tms ! index))),
                              (''sv'', secondsViewed ! index)]))
                 snaps 0 Map.empty
         in case own_session self of
              None \<Rightarrow> (Thrown (TypeError session_message), [])
            | Some s \<Rightarrow>
                (let params =
                       [(''added_friends_timestamp'',
                           Val (JNum (timestampFrom D (addedFriendsTimestamp s)))),
                        (''username'', Val (JStr (username (client self)))),
                        (''json'', JsonMap json)]
                 in (deliver (post T update_snaps params), [Post update_snaps params]))))"

text \<open>
  \<^verbatim>\<open>markSnapViewed\<close> (lines 88 to 93); \<open>now\<close> is what \<^verbatim>\<open>new Date()\<close> reads.
\<close>

definition markSnapViewed ::
  "deps \<Rightarrow> transport \<Rightarrow> snaps_obj \<Rightarrow> int \<Rightarrow> snap \<Rightarrow> jsval \<Rightarrow> jsval run" where
  "markSnapViewed D T self now sn secondsViewed =
     markSnapsViewed D T self [sn] [now] [secondsViewed]"

text \<open>
  \<^verbatim>\<open>markSnapScreenshot\<close> (lines 133 to 155); \<open>ts1\<close> and \<open>ts2\<close> are what the two calls of
  \<^verbatim>\<open>StringUtils.timestamp()\<close> return.
\<close>

definition markSnapScreenshot ::
  "deps \<Rightarrow> transport \<Rightarrow> snaps_obj \<Rightarrow> int \<Rightarrow> int \<Rightarrow> snap \<Rightarrow> jsval \<Rightarrow> jsval run" where
  "markSnapScreenshot D T self ts1 ts2 sn secondsViewed =
     (let timestamp = ts1;
          snapInfo =
            Map.empty
              (identifier sn \<mapsto>
                 JObj [(''t'', JNum (js_bitor timestamp 0)),
                       (''sv'', secondsViewed),
                       (''c'', JNum (SnapStatus_Screenshot D))]);
          screenshot =
            JObj [(''eventName'', JStr ''SNAP_SCREENSHOT''),
                  (''params'', JObj [(''id'', JStr (identifier sn))]),
                  (''ts'', JNum (js_bitor ts2 0))]
      in (deliver (sendEvents T [screenshot] snapInfo), [SendEvents [screenshot] snapInfo]))"

text \<open>\<^verbatim>\<open>_loadSnapWithIdentifier\<close> (lines 203 to 223).\<close>

definition loadSnapWithIdentifier ::
  "deps \<Rightarrow> transport \<Rightarrow> snaps_obj \<Rightarrow> string \<Rightarrow> skblob run" where
  "loadSnapWithIdentifier D T self ident =
     (let params =
            [(''id'', Val (JStr ident)),
             (''username'', Val (JStr (username (client self))))]
      in case post T snaps_loadBlob params of
           (Some err, body) \<Rightarrow> (Rejected err, [Post snaps_loadBlob params])
         | (None, body) \<Rightarrow>
             (case SKBlob_initWithData D body of
                (Some err, blob) \<Rightarrow> (Rejected err, [Post snaps_loadBlob params])
              | (None, blob) \<Rightarrow> (Resolved blob, [Post snaps_loadBlob params])))"

text \<open>\<^verbatim>\<open>loadSnap\<close> (lines 163 to 168).\<close>

definition loadSnap :: "deps \<Rightarrow> transport \<Rightarrow> snaps_obj \<Rightarrow> snap \<Rightarrow> skblob run" where
  "loadSnap D T self sn = loadSnapWithIdentifier D T self (identifier sn)"

definition loadFilters_message :: string where
  "loadFilters_message = ''Snaps.loadFiltersForLocation parse error''"

text \<open>The object literal of lines 182 to 188.\<close>

definition locationData_form :: "snaps_obj \<Rightarrow> location \<Rightarrow> form" where
  "locationData_form self loc =
     [(''lat'', Val (lat loc)),
      (''lng'', Val (lng loc)),
      (''screen_width'', Val (JNum (width (screenSize (client self))))),
      (''screen_height'', Val (JNum (height (screenSize (client self))))),
      (''username'', Val (JStr (username (client self))))]"

text \<open>\<^verbatim>\<open>loadFiltersForLocation\<close> (lines 176 to 198).\<close>

definition loadFiltersForLocation ::
  "deps \<Rightarrow> transport \<Rightarrow> snaps_obj \<Rightarrow> location \<Rightarrow> jsval run" where
  "loadFiltersForLocation D T self loc =
     (let params = locationData_form self loc
      in case post T misc_locationData params of
           (Some err, result) \<Rightarrow> (Rejected err, [Post misc_locationData params])
         | (None, result) \<Rightarrow>
             (if truthy result
              then (Resolved (SKLocation_new D result), [Post misc_locationData params])
              else (Rejected (ParseError loadFilters_message), [Post misc_locationData params])))"

text \<open>
  \<^verbatim>\<open>sendSnap\<close> (lines 37 to 42). The options are constructed while the arguments of
  the call to \<^verbatim>\<open>sendSnapCustom\<close> are evaluated: an exception of the constructor leaves
  \<^verbatim>\<open>sendSnap\<close> before \<^verbatim>\<open>sendSnapCustom\<close> is entered.
\<close>

definition sendSnap ::
  "deps \<Rightarrow> transport \<Rightarrow> snaps_obj \<Rightarrow> blob_arg \<Rightarrow> string list \<Rightarrow> string \<Rightarrow> int \<Rightarrow> jsval run" where
  "sendSnap D T self blob rcpts txt duration =
     (case SnapOptions_new D rcpts txt duration of
        Inl e \<Rightarrow> (Thrown e, [])
      | Inr opts \<Rightarrow> sendSnapCustom D T self blob opts)"

section \<open>Reading a run\<close>

text \<open>The requests of a run that went through \<^verbatim>\<open>client.post\<close>.\<close>

fun is_Post :: "call \<Rightarrow> bool" where
  "is_Post (Post ep f) = True"
| "is_Post _ = False"

definition post_calls :: "call list \<Rightarrow> call list" where
  "post_calls reqs = filter is_Post reqs"

text \<open>
  Modelled from the spec: the request that \<^verbatim>\<open>client.sendEvents\<close> makes of its
  arguments. The method belongs to the transport client and is not among the sources. The
  specification says that the event and the record map are sent together in one request,
  and that every outgoing request includes the current session's username, read from the
  transport client at call time.
\<close>

record events_request =
  events_sent :: "jsval list"
  records_sent :: "string \<rightharpoonup> jsval"
  username_sent :: string

definition sendEvents_request ::
  "client_obj \<Rightarrow> jsval list \<Rightarrow> (string \<rightharpoonup> jsval) \<Rightarrow> events_request" where
  "sendEvents_request cl evs info =
     \<lparr> events_sent = evs, records_sent = info, username_sent = username cl \<rparr>"

text \<open>
  What leaves the client for a call of the facade: the form the facade wrote, or the
  request the client makes of the events.
\<close>

datatype outgoing = FormRequest form | EventsRequest events_request

fun outgoing_of :: "client_obj \<Rightarrow> call \<Rightarrow> outgoing" where
  "outgoing_of cl (Post ep f) = FormRequest f"
| "outgoing_of cl (PostCustom ep f h a) = FormRequest f"
| "outgoing_of cl (SendEvents evs info) = EventsRequest (sendEvents_request cl evs info)"

fun includes_username :: "string \<Rightarrow> outgoing \<Rightarrow> bool" where
  "includes_username u (FormRequest f) = (map_of f ''username'' = Some (Val (JStr u)))"
| "includes_username u (EventsRequest r) = (username_sent r = u)"

text \<open>Every request of a run includes the username of the client \<open>cl\<close>.\<close>

definition username_in_all :: "client_obj \<Rightarrow> call list \<Rightarrow> bool" where
  "username_in_all cl reqs =
     list_all (\<lambda>c. includes_username (username cl) (outgoing_of cl c)) reqs"

text \<open>
  Every error the network reported for a request of the run is the error the run was
  rejected with.
\<close>

definition reports_errors :: "transport \<Rightarrow> 'a run \<Rightarrow> bool" where
  "reports_errors T r =
     list_all (\<lambda>c. case call_err T c of None \<Rightarrow> True | Some e \<Rightarrow> fst r = Rejected e) (snd r)"

text \<open>The outcome came on the asynchronous channel.\<close>

fun is_async :: "'a outcome \<Rightarrow> bool" where
  "is_async (Thrown e) = False"
| "is_async (Rejected e) = True"
| "is_async (Resolved r) = True"

section \<open>A concrete session\<close>

text \<open>
  Modelled from the spec: the constructor of \<^verbatim>\<open>models/snap-options\<close>, which
  \<^verbatim>\<open>sendSnap\<close> calls and which is not among the sources. The specification gives a
  SendOptions the recipients, the caption, a display duration that must be greater than 0
  (construction fails with InvalidArgument otherwise) and two optional flags. It serves as
  the constructor of the concrete session.
\<close>

definition SnapOptions_message :: string where
  "SnapOptions_message = ''duration must be greater than 0''"

definition SnapOptions :: "string list \<Rightarrow> string \<Rightarrow> int \<Rightarrow> error + snap_options" where
  "SnapOptions rcpts txt duration =
     (if duration \<le> 0 then Inl (InvalidArgument SnapOptions_message)
      else Inr \<lparr> recipients = rcpts, caption = txt, timer = duration,
                 cameraFrontFacing = False, isReply = False \<rparr>)"

definition example_deps :: deps where
  "example_deps =
     \<lparr> mediaIdentifier = (\<lambda>u. u @ ''~media-1''),
       timestampFrom = (\<lambda>d. d),
       SnapStatus_Screenshot = 3,
       MediaKind_Image = 0,
       MediaKind_Video = 1,
       headers_clientAuthToken = ''X-Client-Auth-Token'',
       headers_contentType = ''Content-Type'',
       core_boundary = ''boundary'',
       SKLocation_new = (\<lambda>raw. JObj [(''raw'', raw)]),
       SKBlob_initWithData = (\<lambda>body. (None, \<lparr> isImage = True, data = [] \<rparr>)),
       SnapOptions_new = SnapOptions \<rparr>"

definition example_deps_bad_blob :: deps where
  "example_deps_bad_blob =
     example_deps \<lparr> SKBlob_initWithData :=
       (\<lambda>body. (Some (Foreign ''not a blob''), \<lparr> isImage = False, data = [] \<rparr>)) \<rparr>"

definition example_client :: client_obj where
  "example_client =
     \<lparr> username = ''alice'',
       session = \<lparr> countryCode = ''US'', addedFriendsTimestamp = 1446336000000 \<rparr>,
       screenSize = \<lparr> width = 640, height = 1136 \<rparr>,
       googleAuthToken = ''gtoken'',
       authToken = ''token'' \<rparr>"

definition example_blob :: blob_arg where
  "example_blob = SKBlob \<lparr> isImage = True, data = [255, 216, 255] \<rparr>"

definition example_opts :: snap_options where
  "example_opts =
     \<lparr> recipients = [''bob''], caption = ''hi'', timer = 5,
       cameraFrontFacing = False, isReply = False \<rparr>"

definition example_snap :: snap where
  "example_snap = \<lparr> identifier = ''s1'' \<rparr>"

definition example_self :: snaps_obj where
  "example_self = Snaps example_client JUndefined"

definition example_location :: location where
  "example_location = \<lparr> lat = JNum 1, lng = JNum 2 \<rparr>"

text \<open>A network that accepts everything, and three that fail in one place.\<close>

definition net_ok :: transport where
  "net_ok =
     \<lparr> post = (\<lambda>ep f. (None, JObj [(''lat'', JNum 1), (''lng'', JNum 2)])),
       postCustom = (\<lambda>ep f h a. None),
       sendEvents = (\<lambda>evs info. (None, JObj [])) \<rparr>"

definition net_upload_fails :: transport where
  "net_upload_fails = net_ok \<lparr> postCustom := (\<lambda>ep f h a. Some (Foreign ''upload failed'')) \<rparr>"

definition net_post_fails :: transport where
  "net_post_fails = net_ok \<lparr> post := (\<lambda>ep f. (Some (Foreign ''ECONNRESET''), JUndefined)) \<rparr>"

definition net_post_null :: transport where
  "net_post_null = net_ok \<lparr> post := (\<lambda>ep f. (None, JNull)) \<rparr>"

section \<open>Auxiliary facts\<close>

lemmas example_defs =
  example_deps_def example_client_def example_blob_def example_opts_def example_snap_def
  example_self_def example_location_def net_ok_def net_upload_fails_def net_post_fails_def
  net_post_null_def Snaps_def SnapOptions_def

text \<open>Or-ing with zero keeps the low 32 bits and reads them as a signed number.\<close>

lemma js_bitor_0: "js_bitor x 0 = (x + 2 ^ 31) mod 2 ^ 32 - 2 ^ 31"
  by (simp add: js_bitor_def int_word_sint)

lemma js_bitor_range: "- (2 ^ 31) \<le> js_bitor x 0 \<and> js_bitor x 0 < 2 ^ 31"
  by (simp add: js_bitor_0)

text \<open>A millisecond timestamp of November 2015 does not survive the coercion.\<close>

lemma js_bitor_example: "js_bitor 1446336000000 0 = - 1067978752"
  by (simp add: js_bitor_0)

lemma deliver_async: "is_async (deliver r)"
  by (cases r rule: deliver.cases) auto

lemma deliver_error: "fst r = Some e \<Longrightarrow> deliver r = Rejected e"
  by (cases r) auto

text \<open>\<^verbatim>\<open>_uploadSnap\<close> goes through \<^verbatim>\<open>Request.postCustom\<close> only.\<close>

lemma uploadSnap_no_post: "post_calls (snd (uploadSnap D T self blob)) = []"
  by (simp add: uploadSnap_def post_calls_def Let_def split: blob_arg.splits option.splits)

text \<open>
  Once the upload has succeeded, \<^verbatim>\<open>sendSnapCustom\<close> posts the send request with the
  timer of the options as its \<^verbatim>\<open>time\<close>, whatever the timer is, and ends as that
  request does.
\<close>

lemma sendSnapCustom_sends_timer:
  "fst (uploadSnap D T self blob) = Resolved m \<Longrightarrow>
   \<exists>f. sendSnapCustom D T self blob opts =
         (deliver (post T snaps_send f), snd (uploadSnap D T self blob) @ [Post snaps_send f]) \<and>
       map_of f ''time'' = Some (Val (JNum (timer opts)))"
  by (cases "uploadSnap D T self blob")
     (auto simp: sendSnapCustom_def Let_def split: prod.splits option.splits)

text \<open>
  Had something assigned the facade a \<^verbatim>\<open>session\<close> of its own, the one request would
  carry the timestamp of that object, not of the client's session.
\<close>

lemma markSnapsViewed_own_session:
  "length snaps = length tms \<Longrightarrow> length tms = length secondsViewed \<Longrightarrow>
   own_session self = Some s \<Longrightarrow>
   \<exists>f. snd (markSnapsViewed D T self snaps tms secondsViewed) = [Post update_snaps f] \<and>
       map_of f ''added_friends_timestamp'' =
         Some (Val (JNum (timestampFrom D (addedFriendsTimestamp s)))) \<and>
       map_of f ''username'' = Some (Val (JStr (username (client self))))"
  by (simp add: markSnapsViewed_def Let_def)

text \<open>An empty object is truthy: it is handed to the location model, not refused.\<close>

lemma loadFiltersForLocation_empty_object:
  "fst (loadFiltersForLocation D (net_ok \<lparr> post := (\<lambda>ep f. (None, JObj [])) \<rparr>) self loc) =
     Resolved (SKLocation_new D (JObj []))"
  by (simp add: loadFiltersForLocation_def Let_def)

subsection \<open>Channels\<close>

lemma sendSnapCustom_async:
  "is_async (fst (sendSnapCustom D T self blob opts)) \<and>
   reports_errors T (sendSnapCustom D T self blob opts)"
  by (cases blob)
     (auto simp: sendSnapCustom_def uploadSnap_def reports_errors_def Let_def
           split: option.splits prod.splits)

lemma loadSnap_async:
  "is_async (fst (loadSnap D T self sn)) \<and> reports_errors T (loadSnap D T self sn)"
  by (auto simp: loadSnap_def loadSnapWithIdentifier_def reports_errors_def Let_def
           split: option.splits prod.splits)

lemma loadFiltersForLocation_async:
  "is_async (fst (loadFiltersForLocation D T self loc)) \<and>
   reports_errors T (loadFiltersForLocation D T self loc)"
  by (auto simp: loadFiltersForLocation_def reports_errors_def Let_def
           split: option.splits prod.splits)

lemma markSnapScreenshot_async:
  "is_async (fst (markSnapScreenshot D T self ts1 ts2 sn s)) \<and>
   reports_errors T (markSnapScreenshot D T self ts1 ts2 sn s)"
  by (auto simp: markSnapScreenshot_def reports_errors_def Let_def deliver_async deliver_error
           split: option.splits)

text \<open>The one request of \<^verbatim>\<open>_loadSnapWithIdentifier\<close> and how the run ends.\<close>

lemma loadSnap_outcome:
  "\<exists>f. snd (loadSnap D T self sn) = [Post snaps_loadBlob f] \<and>
       fst (loadSnap D T self sn) =
         (case post T snaps_loadBlob f of
            (Some err, body) \<Rightarrow> Rejected err
          | (None, body) \<Rightarrow> deliver (SKBlob_initWithData D body))"
  by (auto simp: loadSnap_def loadSnapWithIdentifier_def Let_def
           split: option.splits prod.splits)

lemma loadFiltersForLocation_outcome:
  "loadFiltersForLocation D T self loc =
     ((case post T misc_locationData (locationData_form self loc) of
         (Some err, result) \<Rightarrow> Rejected err
       | (None, result) \<Rightarrow>
           if truthy result then Resolved (SKLocation_new D result)
           else Rejected (ParseError loadFilters_message)),
      [Post misc_locationData (locationData_form self loc)])"
  by (auto simp: loadFiltersForLocation_def Let_def split: option.splits prod.splits)

subsection \<open>The username field\<close>

lemma uploadSnap_username: "username_in_all (client self) (snd (uploadSnap D T self blob))"
  by (cases blob) (auto simp: username_in_all_def uploadSnap_def Let_def split: option.splits)

lemma sendSnapCustom_username:
  "username_in_all (client self) (snd (sendSnapCustom D T self blob opts))"
  by (cases blob)
     (auto simp: username_in_all_def sendSnapCustom_def uploadSnap_def Let_def
           split: option.splits prod.splits)

lemma sendSnap_username:
  "username_in_all (client self) (snd (sendSnap D T self blob rcpts tx duration))"
  using sendSnapCustom_username [of self D T blob]
  by (auto simp: sendSnap_def username_in_all_def split: sum.splits)

lemma markSnapsViewed_username:
  "username_in_all (client self) (snd (markSnapsViewed D T self snaps tms secondsViewed))"
  by (auto simp: username_in_all_def markSnapsViewed_def Let_def split: option.splits)

lemma markSnapScreenshot_username:
  "username_in_all (client self) (snd (markSnapScreenshot D T self ts1 ts2 sn s))"
  by (simp add: username_in_all_def markSnapScreenshot_def sendEvents_request_def Let_def)

lemma loadSnap_username: "username_in_all (client self) (snd (loadSnap D T self sn))"
  by (auto simp: username_in_all_def loadSnap_def loadSnapWithIdentifier_def Let_def
           split: option.splits prod.splits)

lemma loadFiltersForLocation_username:
  "username_in_all (client self) (snd (loadFiltersForLocation D T self loc))"
  by (auto simp: username_in_all_def loadFiltersForLocation_def locationData_form_def Let_def
           split: option.splits prod.splits)

section \<open>The claims\<close>

text \<open>
  Claim C1. Whatever the blob and the options: when the upload step of
  \<^verbatim>\<open>sendSnapCustom\<close> fails with an error \<open>e\<close> (thrown by \<^verbatim>\<open>_uploadSnap\<close> or passed to
  its callback), \<^verbatim>\<open>sendSnapCustom\<close> is rejected with exactly \<open>e\<close> and \<^verbatim>\<open>client.post\<close>
  is called zero times, so the send request is never attempted.
\<close>

theorem sendSnapCustom_upload_failure:
  "fst (uploadSnap D T self blob) = Thrown e \<or> fst (uploadSnap D T self blob) = Rejected e \<Longrightarrow>
   fst (sendSnapCustom D T self blob opts) = Rejected e \<and>
   post_calls (snd (sendSnapCustom D T self blob opts)) = []"
  using uploadSnap_no_post [of D T self blob]
  by (cases "uploadSnap D T self blob") (auto simp: sendSnapCustom_def split: outcome.splits)

theorem sendSnapCustom_upload_failure_witness:
  "fst (uploadSnap example_deps net_upload_fails example_self example_blob)
     = Rejected (Foreign ''upload failed'') \<and>
   fst (sendSnapCustom example_deps net_upload_fails example_self example_blob example_opts)
     = Rejected (Foreign ''upload failed'') \<and>
   post_calls
     (snd (sendSnapCustom example_deps net_upload_fails example_self example_blob example_opts))
     = [] \<and>
   fst (uploadSnap example_deps net_ok example_self (NotSKBlob JNull))
     = Thrown (InvalidArgument uploadSnap_message) \<and>
   fst (sendSnapCustom example_deps net_ok example_self (NotSKBlob JNull) example_opts)
     = Rejected (InvalidArgument uploadSnap_message)"
proof -
  have h: "fst (uploadSnap example_deps net_upload_fails example_self example_blob)
             = Rejected (Foreign ''upload failed'')"
    by (simp add: uploadSnap_def example_blob_def net_upload_fails_def net_ok_def Let_def)
  have k: "fst (uploadSnap example_deps net_ok example_self (NotSKBlob JNull))
             = Thrown (InvalidArgument uploadSnap_message)"
    by (simp add: uploadSnap_def Let_def)
  from sendSnapCustom_upload_failure [OF disjI2, OF h]
    sendSnapCustom_upload_failure [OF disjI1, OF k] h k
  show ?thesis by simp
qed

text \<open>
  Claim C2, as stated, fails for \<^verbatim>\<open>sendSnapCustom\<close>: handed options whose timer is 0, it
  does not fail with InvalidArgument. It uploads the blob and posts the send request, with
  0 as the \<^verbatim>\<open>time\<close>.
\<close>

theorem sendSnapCustom_sends_timer_zero:
  "timer (example_opts \<lparr> timer := 0 \<rparr>) \<le> 0 \<and>
   fst (sendSnapCustom example_deps net_ok example_self example_blob
          (example_opts \<lparr> timer := 0 \<rparr>)) =
     Resolved (JObj [(''lat'', JNum 1), (''lng'', JNum 2)]) \<and>
   length (snd (sendSnapCustom example_deps net_ok example_self example_blob
                  (example_opts \<lparr> timer := 0 \<rparr>))) = 2 \<and>
   post_calls (snd (sendSnapCustom example_deps net_ok example_self example_blob
                      (example_opts \<lparr> timer := 0 \<rparr>))) =
     [Post snaps_send
        [(''camera_front_facing'', Val (JBool False)),
         (''country_code'', Val (JStr ''US'')),
         (''media_id'', Val (JStr ''alice~media-1'')),
         (''recipients'', Json (JArr [JStr ''bob''])),
         (''recipient_ids'', Json (JArr [JStr ''bob''])),
         (''reply'', Val (JBool False)),
         (''time'', Val (JNum 0)),
         (''zipped'', Val (JNum 0)),
         (''username'', Val (JStr ''alice''))]]"
  by (simp add: sendSnapCustom_def uploadSnap_def post_calls_def example_defs Let_def)

text \<open>
  Claim C2, amended. The facade does not check the duration itself. \<^verbatim>\<open>sendSnap\<close> hands it
  to the constructor of the options: when the constructor throws, \<^verbatim>\<open>sendSnap\<close> throws that
  error and issues no request; when it returns options, \<^verbatim>\<open>sendSnap\<close> is
  \<^verbatim>\<open>sendSnapCustom\<close> on them. \<^verbatim>\<open>sendSnapCustom\<close>, once the upload has succeeded, posts
  the send request with the timer of the options as its \<^verbatim>\<open>time\<close>, whatever the timer is
  (positive or not), and ends as that request does.
\<close>

theorem duration_left_to_constructor:
  "(SnapOptions_new D rcpts tx duration = Inl e \<longrightarrow>
      sendSnap D T self blob rcpts tx duration = (Thrown e, [])) \<and>
   (SnapOptions_new D rcpts tx duration = Inr made \<longrightarrow>
      sendSnap D T self blob rcpts tx duration = sendSnapCustom D T self blob made) \<and>
   (fst (uploadSnap D T self blob) = Resolved m \<longrightarrow>
      (\<exists>f. sendSnapCustom D T self blob opts =
              (deliver (post T snaps_send f),
               snd (uploadSnap D T self blob) @ [Post snaps_send f]) \<and>
            map_of f ''time'' = Some (Val (JNum (timer opts)))))"
  using sendSnapCustom_sends_timer [of D T self blob m opts]
  by (simp add: sendSnap_def)

theorem duration_left_to_constructor_witness:
  "sendSnap example_deps net_ok example_self example_blob [''bob''] ''hi'' 0 =
     (Thrown (InvalidArgument SnapOptions_message), []) \<and>
   sendSnap example_deps net_ok example_self example_blob [''bob''] ''hi'' 5 =
     sendSnapCustom example_deps net_ok example_self example_blob example_opts \<and>
   (\<exists>f. sendSnapCustom example_deps net_ok example_self example_blob
           (example_opts \<lparr> timer := - 3 \<rparr>) =
           (deliver (post net_ok snaps_send f),
            snd (uploadSnap example_deps net_ok example_self example_blob) @
              [Post snaps_send f]) \<and>
         map_of f ''time'' = Some (Val (JNum (- 3))))"
proof -
  have a: "SnapOptions_new example_deps [''bob''] ''hi'' 0 =
             Inl (InvalidArgument SnapOptions_message)"
    by (simp add: example_deps_def SnapOptions_def)
  have b: "SnapOptions_new example_deps [''bob''] ''hi'' 5 = Inr example_opts"
    by (simp add: example_deps_def SnapOptions_def example_opts_def)
  have c: "fst (uploadSnap example_deps net_ok example_self example_blob) =
             Resolved ''alice~media-1''"
    by (simp add: uploadSnap_def example_defs Let_def)
  have t: "timer (example_opts \<lparr> timer := - 3 \<rparr>) = - 3"
    by simp
  from a b c t
    duration_left_to_constructor
      [where D = example_deps and T = net_ok and self = example_self and blob = example_blob
         and rcpts = "[''bob'']" and tx = "''hi''" and duration = 0
         and e = "InvalidArgument SnapOptions_message" and made = example_opts
         and m = "''alice~media-1''" and opts = "example_opts \<lparr> timer := - 3 \<rparr>"]
    duration_left_to_constructor
      [where D = example_deps and T = net_ok and self = example_self and blob = example_blob
         and rcpts = "[''bob'']" and tx = "''hi''" and duration = 5
         and e = "InvalidArgument SnapOptions_message" and made = example_opts
         and m = "''alice~media-1''" and opts = "example_opts \<lparr> timer := - 3 \<rparr>"]
  show ?thesis by simp
qed

text \<open>
  Claim C3. Whenever the lengths of \<open>snaps\<close>, \<open>times\<close> and \<open>secondsViewed\<close> are not all
  equal, \<^verbatim>\<open>markSnapsViewed\<close> fails with InvalidArgument and has issued no request.
\<close>

theorem markSnapsViewed_length_mismatch:
  "\<not> (length snaps = length tms \<and> length tms = length secondsViewed) \<Longrightarrow>
   markSnapsViewed D T self snaps tms secondsViewed =
     (Thrown (InvalidArgument markSnapsViewed_message), [])"
  by (auto simp: markSnapsViewed_def)

theorem markSnapsViewed_length_mismatch_witness:
  "markSnapsViewed example_deps net_ok example_self [example_snap] [] [] =
     (Thrown (InvalidArgument markSnapsViewed_message), []) \<and>
   markSnapsViewed example_deps net_ok example_self [example_snap] [1446336000000] [] =
     (Thrown (InvalidArgument markSnapsViewed_message), [])"
  using markSnapsViewed_length_mismatch
      [of "[example_snap]" "[]" "[]" example_deps net_ok example_self]
    markSnapsViewed_length_mismatch
      [of "[example_snap]" "[1446336000000]" "[]" example_deps net_ok example_self]
  by simp

text \<open>
  Claim C4 says that the request of \<^verbatim>\<open>markSnapsViewed\<close> carries the added-friends
  timestamp of the client's session. What the code does on a facade the constructor made,
  for sequences of equal length: it reads \<^verbatim>\<open>self.session\<close>, which is undefined, and ends
  in a TypeError before \<^verbatim>\<open>client.post\<close> is called, so nothing is posted.
\<close>

theorem markSnapsViewed_session_undefined:
  "length snaps = length tms \<Longrightarrow> length tms = length secondsViewed \<Longrightarrow>
   markSnapsViewed D T (Snaps cl opts) snaps tms secondsViewed =
     (Thrown (TypeError session_message), [])"
  by (simp add: markSnapsViewed_def Snaps_def)

theorem markSnapsViewed_session_undefined_witness:
  "markSnapsViewed example_deps net_ok example_self [example_snap] [1446336000000] [JNum 5] =
     (Thrown (TypeError session_message), [])"
  using markSnapsViewed_session_undefined
    [of "[example_snap]" "[1446336000000]" "[JNum 5]" example_deps net_ok example_client JUndefined]
  by (simp add: example_self_def)

text \<open>
  Claim C5, as stated, fails: the InvalidArgument of mismatched lengths leaves
  \<^verbatim>\<open>markSnapsViewed\<close> as a synchronous throw, not on the asynchronous channel.
\<close>

theorem markSnapsViewed_throws_synchronously:
  "fst (markSnapsViewed example_deps net_ok example_self [example_snap] [] []) =
     Thrown (InvalidArgument markSnapsViewed_message) \<and>
   \<not> is_async (fst (markSnapsViewed example_deps net_ok example_self [example_snap] [] []))"
  by (simp add: markSnapsViewed_def)

text \<open>
  Claim C5, amended. Called with a blob argument, options, a snap object and a location
  object:
  \<^item> \<^verbatim>\<open>sendSnapCustom\<close> never throws. It ends on the asynchronous channel, every error the
    network reported for one of its requests is the error it is rejected with, and a blob
    of the wrong type, for which \<^verbatim>\<open>_uploadSnap\<close> throws, rejects it with that exception.
  \<^item> \<^verbatim>\<open>loadSnap\<close> issues one request and is rejected with the error of that request, or
    else with the error of the blob decoder; it resolves with the blob only when there is
    neither.
  \<^item> \<^verbatim>\<open>loadFiltersForLocation\<close> issues one request and is rejected with the error of that
    request, or else with the parse error when the result is falsy.
  \<^item> \<^verbatim>\<open>markSnapScreenshot\<close> ends on the asynchronous channel, with the error
    \<^verbatim>\<open>client.sendEvents\<close> reports, if any.
  \<^item> \<^verbatim>\<open>markSnapsViewed\<close> throws synchronously for mismatched lengths, before any request.
  \<^item> \<^verbatim>\<open>sendSnap\<close> throws synchronously what the constructor of the options throws, and is
    \<^verbatim>\<open>sendSnapCustom\<close> otherwise.
\<close>

theorem failures_by_channel:
  "is_async (fst (sendSnapCustom D T self blob opts)) \<and>
   reports_errors T (sendSnapCustom D T self blob opts) \<and>
   uploadSnap D T self (NotSKBlob v) = (Thrown (InvalidArgument uploadSnap_message), []) \<and>
   sendSnapCustom D T self (NotSKBlob v) opts =
     (Rejected (InvalidArgument uploadSnap_message), []) \<and>
   (\<exists>f. snd (loadSnap D T self sn) = [Post snaps_loadBlob f] \<and>
        fst (loadSnap D T self sn) =
          (case post T snaps_loadBlob f of
             (Some err, body) \<Rightarrow> Rejected err
           | (None, body) \<Rightarrow> deliver (SKBlob_initWithData D body))) \<and>
   loadFiltersForLocation D T self loc =
     ((case post T misc_locationData (locationData_form self loc) of
         (Some err, result) \<Rightarrow> Rejected err
       | (None, result) \<Rightarrow>
           if truthy result then Resolved (SKLocation_new D result)
           else Rejected (ParseError loadFilters_message)),
      [Post misc_locationData (locationData_form self loc)]) \<and>
   is_async (fst (markSnapScreenshot D T self ta tb sn s)) \<and>
   reports_errors T (markSnapScreenshot D T self ta tb sn s) \<and>
   (\<not> (length snaps = length tms \<and> length tms = length secondsViewed) \<longrightarrow>
      markSnapsViewed D T self snaps tms secondsViewed =
        (Thrown (InvalidArgument markSnapsViewed_message), [])) \<and>
   (SnapOptions_new D rcpts tx duration = Inl e \<longrightarrow>
      sendSnap D T self blob rcpts tx duration = (Thrown e, [])) \<and>
   (SnapOptions_new D rcpts tx duration = Inr made \<longrightarrow>
      sendSnap D T self blob rcpts tx duration = sendSnapCustom D T self blob made)"
  using sendSnapCustom_async [of D T self blob opts] loadSnap_outcome [of D T self sn]
    loadFiltersForLocation_outcome [of D T self loc]
    markSnapScreenshot_async [of D T self ta tb sn s]
  by (simp add: markSnapsViewed_def uploadSnap_def sendSnapCustom_def sendSnap_def Let_def)

theorem failures_by_channel_witness:
  "fst (sendSnapCustom example_deps net_upload_fails example_self example_blob example_opts)
     = Rejected (Foreign ''upload failed'') \<and>
   sendSnapCustom example_deps net_ok example_self (NotSKBlob JNull) example_opts =
     (Rejected (InvalidArgument uploadSnap_message), []) \<and>
   fst (loadSnap example_deps net_post_fails example_self example_snap)
     = Rejected (Foreign ''ECONNRESET'') \<and>
   fst (loadSnap example_deps_bad_blob net_ok example_self example_snap)
     = Rejected (Foreign ''not a blob'') \<and>
   fst (loadFiltersForLocation example_deps net_post_fails example_self example_location)
     = Rejected (Foreign ''ECONNRESET'') \<and>
   fst (loadFiltersForLocation example_deps net_post_null example_self example_location)
     = Rejected (ParseError loadFilters_message) \<and>
   markSnapsViewed example_deps net_ok example_self [example_snap] [] [] =
     (Thrown (InvalidArgument markSnapsViewed_message), []) \<and>
   sendSnap example_deps net_ok example_self example_blob [''bob''] ''hi'' 0 =
     (Thrown (InvalidArgument SnapOptions_message), [])"
proof -
  have m: "\<not> (length [example_snap] = length ([] :: int list) \<and>
              length ([] :: int list) = length ([] :: jsval list))"
    by simp
  have o: "SnapOptions_new example_deps [''bob''] ''hi'' 0 =
             Inl (InvalidArgument SnapOptions_message)"
    by (simp add: example_deps_def SnapOptions_def)
  have u: "call_err net_upload_fails
             (hd (snd (sendSnapCustom example_deps net_upload_fails example_self example_blob
                         example_opts))) = Some (Foreign ''upload failed'') \<and>
           snd (sendSnapCustom example_deps net_upload_fails example_self example_blob
                  example_opts) \<noteq> []"
    by (simp add: sendSnapCustom_def uploadSnap_def example_blob_def net_upload_fails_def
          net_ok_def Let_def)
  have p: "\<And>ep f. post net_post_fails ep f = (Some (Foreign ''ECONNRESET''), JUndefined)"
    by (simp add: net_post_fails_def)
  have q: "\<And>ep f. post net_post_null ep f = (None, JNull)"
    by (simp add: net_post_null_def)
  have r: "\<And>ep f. post net_ok ep f = (None, JObj [(''lat'', JNum 1), (''lng'', JNum 2)])"
    by (simp add: net_ok_def)
  have d: "\<And>body. SKBlob_initWithData example_deps_bad_blob body =
             (Some (Foreign ''not a blob''), \<lparr> isImage = False, data = [] \<rparr>)"
    by (simp add: example_deps_bad_blob_def)
  note w = failures_by_channel
      [where self = example_self and blob = example_blob and opts = example_opts
         and v = JNull and sn = example_snap and loc = example_location
         and ta = 0 and tb = 0 and s = JNull
         and snaps = "[example_snap]" and tms = "[]" and secondsViewed = "[]"
         and rcpts = "[''bob'']" and tx = "''hi''" and duration = 0
         and e = "InvalidArgument SnapOptions_message" and made = example_opts]
  from u w [where D = example_deps and T = net_upload_fails]
  have 1: "fst (sendSnapCustom example_deps net_upload_fails example_self example_blob
                  example_opts) = Rejected (Foreign ''upload failed'')"
    by (cases "snd (sendSnapCustom example_deps net_upload_fails example_self example_blob
                      example_opts)")
       (auto simp: reports_errors_def)
  from m o r w [where D = example_deps and T = net_ok]
  have 2: "sendSnapCustom example_deps net_ok example_self (NotSKBlob JNull) example_opts =
             (Rejected (InvalidArgument uploadSnap_message), []) \<and>
           markSnapsViewed example_deps net_ok example_self [example_snap] [] [] =
             (Thrown (InvalidArgument markSnapsViewed_message), []) \<and>
           sendSnap example_deps net_ok example_self example_blob [''bob''] ''hi'' 0 =
             (Thrown (InvalidArgument SnapOptions_message), [])"
    by simp
  from p w [where D = example_deps and T = net_post_fails]
  have 3: "fst (loadSnap example_deps net_post_fails example_self example_snap)
             = Rejected (Foreign ''ECONNRESET'') \<and>
           fst (loadFiltersForLocation example_deps net_post_fails example_self
                  example_location) = Rejected (Foreign ''ECONNRESET'')"
    by auto
  from r d w [where D = example_deps_bad_blob and T = net_ok]
  have 4: "fst (loadSnap example_deps_bad_blob net_ok example_self example_snap)
             = Rejected (Foreign ''not a blob'')"
    by auto
  from q w [where D = example_deps and T = net_post_null]
  have 5: "fst (loadFiltersForLocation example_deps net_post_null example_self
                  example_location) = Rejected (ParseError loadFilters_message)"
    by auto
  from 1 2 3 4 5 show ?thesis by simp
qed

text \<open>
  Claim C6. For every snap and every \<open>secondsViewed\<close>, \<^verbatim>\<open>markSnapViewed\<close> ends as
  \<^verbatim>\<open>markSnapsViewed\<close> does on the one-element sequences of the snap, the same \<open>now\<close> and
  the duration, and issues the same requests with the same payload.
\<close>

theorem markSnapViewed_refines_markSnapsViewed:
  "markSnapViewed D T self now sn s = markSnapsViewed D T self [sn] [now] [s]"
  by (simp add: markSnapViewed_def)

text \<open>
  At a concrete input: on the constructed facade both end in the TypeError; on a facade
  that has a session of its own both post the same form.
\<close>

theorem markSnapViewed_refines_markSnapsViewed_witness:
  "markSnapViewed example_deps net_ok example_self 1446336000000 example_snap (JNum 5) =
     (Thrown (TypeError session_message), []) \<and>
   markSnapViewed example_deps net_ok
       (example_self \<lparr> own_session := Some (session example_client) \<rparr>)
       1446336000000 example_snap (JNum 5) =
     (Resolved (JObj [(''lat'', JNum 1), (''lng'', JNum 2)]),
      [Post update_snaps
         [(''added_friends_timestamp'', Val (JNum 1446336000000)),
          (''username'', Val (JStr ''alice'')),
          (''json'', JsonMap [''s1'' \<mapsto> JObj [(''t'', JNum 1446336000000), (''sv'', JNum 5)]])]])"
proof -
  have a: "markSnapsViewed example_deps net_ok example_self
             [example_snap] [1446336000000] [JNum 5] =
           (Thrown (TypeError session_message), [])"
    by (simp add: markSnapsViewed_def example_self_def Snaps_def)
  have b: "markSnapsViewed example_deps net_ok
             (example_self \<lparr> own_session := Some (session example_client) \<rparr>)
             [example_snap] [1446336000000] [JNum 5] =
           (Resolved (JObj [(''lat'', JNum 1), (''lng'', JNum 2)]),
            [Post update_snaps
               [(''added_friends_timestamp'', Val (JNum 1446336000000)),
                (''username'', Val (JStr ''alice'')),
                (''json'',
                 JsonMap [''s1'' \<mapsto> JObj [(''t'', JNum 1446336000000), (''sv'', JNum 5)]])]])"
    by (simp add: markSnapsViewed_def example_defs Let_def)
  from a b
    markSnapViewed_refines_markSnapsViewed
      [of example_deps net_ok example_self 1446336000000 example_snap "JNum 5"]
    markSnapViewed_refines_markSnapsViewed
      [of example_deps net_ok "example_self \<lparr> own_session := Some (session example_client) \<rparr>"
          1446336000000 example_snap "JNum 5"]
  show ?thesis by simp
qed

text \<open>
  Claim C7. \<^verbatim>\<open>loadFiltersForLocation\<close> issues one request. When the transport reports an
  error it is rejected with that error, unchanged; when the transport succeeds with a falsy
  result it is rejected with the parse error; when the transport succeeds with a truthy
  result it resolves with the location model constructed from that result.
\<close>

theorem loadFiltersForLocation_outcomes:
  "snd (loadFiltersForLocation D T self loc) =
     [Post misc_locationData (locationData_form self loc)] \<and>
   (fst (post T misc_locationData (locationData_form self loc)) = Some e \<longrightarrow>
      fst (loadFiltersForLocation D T self loc) = Rejected e) \<and>
   (post T misc_locationData (locationData_form self loc) = (None, r) \<and> \<not> truthy r \<longrightarrow>
      fst (loadFiltersForLocation D T self loc) = Rejected (ParseError loadFilters_message)) \<and>
   (post T misc_locationData (locationData_form self loc) = (None, r) \<and> truthy r \<longrightarrow>
      fst (loadFiltersForLocation D T self loc) = Resolved (SKLocation_new D r))"
  by (cases "post T misc_locationData (locationData_form self loc)")
     (auto simp: loadFiltersForLocation_def Let_def split: option.splits)

theorem loadFiltersForLocation_outcomes_witness:
  "fst (loadFiltersForLocation example_deps net_post_fails example_self example_location)
     = Rejected (Foreign ''ECONNRESET'') \<and>
   fst (loadFiltersForLocation example_deps net_post_null example_self example_location)
     = Rejected (ParseError loadFilters_message) \<and>
   fst (loadFiltersForLocation example_deps net_ok example_self example_location)
     = Resolved (SKLocation_new example_deps (JObj [(''lat'', JNum 1), (''lng'', JNum 2)]))"
proof -
  have a: "fst (post net_post_fails misc_locationData
                  (locationData_form example_self example_location))
             = Some (Foreign ''ECONNRESET'')"
    by (simp add: net_post_fails_def)
  have b: "post net_post_null misc_locationData (locationData_form example_self example_location)
             = (None, JNull) \<and> \<not> truthy JNull"
    by (simp add: net_post_null_def)
  have c: "post net_ok misc_locationData (locationData_form example_self example_location)
             = (None, JObj [(''lat'', JNum 1), (''lng'', JNum 2)]) \<and>
           truthy (JObj [(''lat'', JNum 1), (''lng'', JNum 2)])"
    by (simp add: net_ok_def)
  from a b c
    loadFiltersForLocation_outcomes
      [of example_deps net_post_fails example_self example_location
          "Foreign ''ECONNRESET''" JNull]
    loadFiltersForLocation_outcomes
      [of example_deps net_post_null example_self example_location
          "Foreign ''ECONNRESET''" JNull]
    loadFiltersForLocation_outcomes
      [of example_deps net_ok example_self example_location
          "Foreign ''ECONNRESET''" "JObj [(''lat'', JNum 1), (''lng'', JNum 2)]"]
  show ?thesis by blast
qed

text \<open>
  Claim C8. For every snap with identifier \<open>id\<close> and every \<open>secondsViewed\<close> value \<open>s\<close>,
  \<^verbatim>\<open>markSnapScreenshot\<close> makes exactly one call, to \<^verbatim>\<open>client.sendEvents\<close>, and hands it
  both the one event \<^verbatim>\<open>{eventName: "SNAP_SCREENSHOT", params: {id: id}, ts: int}\<close> and the
  record map \<^verbatim>\<open>{id: {t: int, sv: s, c: Screenshot}}\<close>; what the call reports is what the
  caller gets.
\<close>

theorem markSnapScreenshot_single_call:
  "markSnapScreenshot D T self ts1 ts2 sn s =
     (deliver (sendEvents T
        [JObj [(''eventName'', JStr ''SNAP_SCREENSHOT''),
               (''params'', JObj [(''id'', JStr (identifier sn))]),
               (''ts'', JNum (js_bitor ts2 0))]]
        [identifier sn \<mapsto> JObj [(''t'', JNum (js_bitor ts1 0)), (''sv'', s),
                                (''c'', JNum (SnapStatus_Screenshot D))]]),
      [SendEvents
        [JObj [(''eventName'', JStr ''SNAP_SCREENSHOT''),
               (''params'', JObj [(''id'', JStr (identifier sn))]),
               (''ts'', JNum (js_bitor ts2 0))]]
        [identifier sn \<mapsto> JObj [(''t'', JNum (js_bitor ts1 0)), (''sv'', s),
                                (''c'', JNum (SnapStatus_Screenshot D))]]])"
  by (simp add: markSnapScreenshot_def Let_def)

text \<open>
  Claim C9. Every request a facade operation issues includes the username of the client:
  the media upload, the send (through \<^verbatim>\<open>sendSnapCustom\<close> and through \<^verbatim>\<open>sendSnap\<close>),
  the batch view acknowledgement (also through \<^verbatim>\<open>markSnapViewed\<close>), the snap load and the
  filter query write it into their form as the field \<^verbatim>\<open>username\<close>; the screenshot
  acknowledgement hands its event and record map to \<^verbatim>\<open>client.sendEvents\<close>, whose request
  includes it.
\<close>

theorem username_in_every_request:
  "username_in_all (client self) (snd (uploadSnap D T self blob)) \<and>
   username_in_all (client self) (snd (sendSnapCustom D T self blob opts)) \<and>
   username_in_all (client self) (snd (sendSnap D T self blob rcpts tx duration)) \<and>
   username_in_all (client self) (snd (markSnapsViewed D T self snaps tms secondsViewed)) \<and>
   username_in_all (client self) (snd (markSnapViewed D T self now sn s)) \<and>
   username_in_all (client self) (snd (markSnapScreenshot D T self ta tb sn s)) \<and>
   username_in_all (client self) (snd (loadSnap D T self sn)) \<and>
   username_in_all (client self) (snd (loadFiltersForLocation D T self loc))"
  using uploadSnap_username [of self D T blob] sendSnapCustom_username [of self D T blob opts]
    sendSnap_username [of self D T blob rcpts tx duration]
    markSnapsViewed_username [of self D T snaps tms secondsViewed]
    markSnapsViewed_username [of self D T "[sn]" "[now]" "[s]"]
    markSnapScreenshot_username [of self D T ta tb sn s]
    loadSnap_username [of self D T sn] loadFiltersForLocation_username [of self D T loc]
  by (simp add: markSnapViewed_def)

theorem username_in_every_request_witness:
  "length (snd (sendSnapCustom example_deps net_ok example_self example_blob example_opts)) = 2 \<and>
   list_all (\<lambda>c. includes_username ''alice'' (outgoing_of example_client c))
     (snd (sendSnapCustom example_deps net_ok example_self example_blob example_opts)) \<and>
   length (snd (loadFiltersForLocation example_deps net_ok example_self example_location)) = 1 \<and>
   list_all (\<lambda>c. includes_username ''alice'' (outgoing_of example_client c))
     (snd (loadFiltersForLocation example_deps net_ok example_self example_location)) \<and>
   length (snd (loadSnap example_deps net_ok example_self example_snap)) = 1 \<and>
   list_all (\<lambda>c. includes_username ''alice'' (outgoing_of example_client c))
     (snd (loadSnap example_deps net_ok example_self example_snap)) \<and>
   length (snd (markSnapScreenshot example_deps net_ok example_self 1446336000000 1446336000001
                  example_snap (JNum 3))) = 1 \<and>
   list_all (\<lambda>c. includes_username ''alice'' (outgoing_of example_client c))
     (snd (markSnapScreenshot example_deps net_ok example_self 1446336000000 1446336000001
             example_snap (JNum 3)))"
proof -
  have u: "username example_client = ''alice''"
    by (simp add: example_client_def)
  have c: "client example_self = example_client"
    by (simp add: example_self_def Snaps_def)
  have n: "length (snd (sendSnapCustom example_deps net_ok example_self example_blob
                          example_opts)) = 2"
    by (simp add: sendSnapCustom_def uploadSnap_def net_ok_def example_blob_def Let_def)
  have k: "length (snd (loadFiltersForLocation example_deps net_ok example_self
                          example_location)) = 1"
    by (simp add: loadFiltersForLocation_def net_ok_def Let_def)
  have l: "length (snd (loadSnap example_deps net_ok example_self example_snap)) = 1"
    by (simp add: loadSnap_def loadSnapWithIdentifier_def net_ok_def example_deps_def Let_def)
  have j: "length (snd (markSnapScreenshot example_deps net_ok example_self 1446336000000
                          1446336000001 example_snap (JNum 3))) = 1"
    by (simp add: markSnapScreenshot_def Let_def)
  from u c n k l j
    username_in_every_request
      [where self = example_self and D = example_deps and T = net_ok and blob = example_blob
         and opts = example_opts and rcpts = "[]" and tx = "[]" and duration = 1
         and snaps = "[]" and tms = "[]" and secondsViewed = "[]" and now = 0
         and sn = example_snap and s = "JNum 3" and ta = 1446336000000
         and tb = 1446336000001 and loc = example_location]
  show ?thesis by (simp add: username_in_all_def)
qed

text \<open>
  Claim C10. In the one call \<^verbatim>\<open>markSnapScreenshot\<close> makes, the field \<^verbatim>\<open>t\<close> of the
  snap's record and the field \<^verbatim>\<open>ts\<close> of the event are the timestamps or-ed with zero:
  each timestamp reduced modulo \<open>2 ^ 32\<close> and read as a signed 32-bit integer, not the
  timestamp itself.
\<close>

theorem markSnapScreenshot_int32_timestamps:
  "\<exists>ev info r.
     snd (markSnapScreenshot D T self ts1 ts2 sn s) = [SendEvents [ev] info] \<and>
     info (identifier sn) = Some r \<and>
     obj_get r ''t'' = Some (JNum (js_bitor ts1 0)) \<and>
     obj_get ev ''ts'' = Some (JNum (js_bitor ts2 0)) \<and>
     js_bitor ts1 0 = (ts1 + 2 ^ 31) mod 2 ^ 32 - 2 ^ 31 \<and>
     js_bitor ts2 0 = (ts2 + 2 ^ 31) mod 2 ^ 32 - 2 ^ 31 \<and>
     js_bitor 1446336000000 0 \<noteq> 1446336000000"
  by (simp add: markSnapScreenshot_def Let_def js_bitor_0)

end
